theory Spec2Isabelle
  imports Complex_Main "HOL-Library.AList"
begin

section \<open>Python values and built-ins used by table_metrics.py\<close>

text \<open>
  Exceptions are values. \<open>ParseError\<close> is the \<^verbatim>\<open>Exception("Could not parse metric alias")\<close>
  of \<^verbatim>\<open>Metric.parse_alias\<close>; the others are the built-in exceptions of the same name.
  \<open>FormatError\<close> stands for what \<^verbatim>\<open>str.format\<close> raises on a template it cannot
  render with automatic numbering.
\<close>

datatype error = KeyError | ParseError | TypeError | ValueError | OverflowError
  | IndexError | FormatError

text \<open>
  A string is a list of code points below 256. \<^verbatim>\<open>str.lower\<close> maps A-Z and the
  Latin-1 capitals (all of U+00C0..U+00DE but the multiplication sign) 32 places up.
\<close>

definition lower_char :: "char \<Rightarrow> char" where
  "lower_char c =
     (let n = (of_char c :: nat)
      in if (65 \<le> n \<and> n \<le> 90) \<or> (192 \<le> n \<and> n \<le> 222 \<and> n \<noteq> 215)
         then char_of (n + 32) else c)"

definition lower :: "string \<Rightarrow> string" where
  "lower s = map lower_char s"

text \<open>\<^verbatim>\<open>s.split("__")\<close>: the pieces between the occurrences of the separator, found
  from the left, without overlap.\<close>

fun split_dunder :: "string \<Rightarrow> string list" where
  "split_dunder (a # b # rest) =
     (if a = CHR ''_'' \<and> b = CHR ''_'' then [] # split_dunder rest
      else (case split_dunder (b # rest) of
              p # ps \<Rightarrow> (a # p) # ps
            | [] \<Rightarrow> [[a]]))"
| "split_dunder [a] = [[a]]"
| "split_dunder [] = [[]]"

text \<open>\<^verbatim>\<open>"__" in s\<close>\<close>

fun contains_dunder :: "string \<Rightarrow> bool" where
  "contains_dunder (a # b # rest) =
     ((a = CHR ''_'' \<and> b = CHR ''_'') \<or> contains_dunder (b # rest))"
| "contains_dunder [a] = False"
| "contains_dunder [] = False"

text \<open>\<^verbatim>\<open>sep.join(parts)\<close>\<close>

fun join :: "string \<Rightarrow> string list \<Rightarrow> string" where
  "join sep [] = []"
| "join sep [p] = p"
| "join sep (p # q # ps) = p @ sep @ join sep (q # ps)"

text \<open>
  \<^verbatim>\<open>template.format(*args)\<close> for the templates of this file: \<^verbatim>\<open>{}\<close> takes the next
  positional argument (IndexError when none is left), \<^verbatim>\<open>{{\<close> and \<^verbatim>\<open>}}\<close> are the
  escaped braces, a single brace is a ValueError. No template of the file has a named or
  numbered field in a positional call, and the model refuses one.
\<close>

definition prepend :: "string \<Rightarrow> error + string \<Rightarrow> error + string" where
  "prepend s r = (case r of Inl e \<Rightarrow> Inl e | Inr t \<Rightarrow> Inr (s @ t))"

fun py_format :: "string \<Rightarrow> string list \<Rightarrow> error + string" where
  "py_format [] args = Inr []"
| "py_format [c] args =
     (if c = CHR ''{'' \<or> c = CHR ''}'' then Inl ValueError else Inr [c])"
| "py_format (c # d # ds) args =
     (if c = CHR ''{'' then
        (if d = CHR ''{'' then prepend [c] (py_format ds args)
         else if d = CHR ''}'' then
           (case args of
              [] \<Rightarrow> Inl IndexError
            | a # as \<Rightarrow> prepend a (py_format ds as))
         else Inl FormatError)
      else if c = CHR ''}'' then
        (if d = CHR ''}'' then prepend [c] (py_format ds args) else Inl ValueError)
      else prepend [c] (py_format (d # ds) args))"

section \<open>MetricType\<close>

datatype MetricType =
    COMPLETENESS
  | APPROX_DISTINCT_COUNT
  | APPROX_DISTINCTNESS
  | MEAN_LENGTH
  | MAX_LENGTH
  | MIN_LENGTH
  | STD_LENGTH
  | TEXT_INT_RATE
  | TEXT_NUMBER_RATE
  | TEXT_UUID_RATE
  | TEXT_ALL_SPACES_RATE
  | TEXT_NULL_KEYWORD_RATE
  | ZERO_RATE
  | NEGATIVE_RATE
  | NUMERIC_MEAN
  | NUMERIC_MIN
  | NUMERIC_MAX
  | NUMERIC_STD

text \<open>The \<^verbatim>\<open>.value\<close> of each member of the enum.\<close>

fun metric_value :: "MetricType \<Rightarrow> string" where
  "metric_value COMPLETENESS = ''completeness''"
| "metric_value APPROX_DISTINCT_COUNT = ''approx_distinct_count''"
| "metric_value APPROX_DISTINCTNESS = ''approx_distinctness''"
| "metric_value MEAN_LENGTH = ''mean_length''"
| "metric_value MAX_LENGTH = ''max_length''"
| "metric_value MIN_LENGTH = ''min_length''"
| "metric_value STD_LENGTH = ''std_length''"
| "metric_value TEXT_INT_RATE = ''text_int_rate''"
| "metric_value TEXT_NUMBER_RATE = ''text_number_rate''"
| "metric_value TEXT_UUID_RATE = ''text_uuid_rate''"
| "metric_value TEXT_ALL_SPACES_RATE = ''text_all_spaces_rate''"
| "metric_value TEXT_NULL_KEYWORD_RATE = ''text_null_keyword_rate''"
| "metric_value ZERO_RATE = ''zero_rate''"
| "metric_value NEGATIVE_RATE = ''negative_rate''"
| "metric_value NUMERIC_MEAN = ''numeric_mean''"
| "metric_value NUMERIC_MIN = ''numeric_min''"
| "metric_value NUMERIC_MAX = ''numeric_max''"
| "metric_value NUMERIC_STD = ''numeric_std''"

text \<open>
  Modelled from the spec: \<^verbatim>\<open>ColumnDataType\<close> is declared in \<^verbatim>\<open>monosi.drivers.column\<close>,
  which is not among the source files. \<^verbatim>\<open>default_for\<close> names its members \<open>STRING\<close> and
  \<open>INTEGER\<close>; the spec's data category is \<^verbatim>\<open>enum{TEXT, NUMERIC, OTHER}\<close>, so every other
  member is \<open>OTHER\<close>, told apart by its name.
\<close>

datatype ColumnDataType = STRING | INTEGER | OTHER string

definition string_types :: "MetricType list" where
  "string_types =
     [COMPLETENESS, APPROX_DISTINCT_COUNT, APPROX_DISTINCTNESS, MEAN_LENGTH, MAX_LENGTH,
      MIN_LENGTH, STD_LENGTH, TEXT_INT_RATE, TEXT_NUMBER_RATE, TEXT_UUID_RATE,
      TEXT_ALL_SPACES_RATE, TEXT_NULL_KEYWORD_RATE]"

definition number_types :: "MetricType list" where
  "number_types =
     [COMPLETENESS, ZERO_RATE, NEGATIVE_RATE, APPROX_DISTINCTNESS, NUMERIC_MEAN,
      NUMERIC_MIN, NUMERIC_MAX, NUMERIC_STD]"

definition default_for :: "ColumnDataType \<Rightarrow> MetricType list" where
  "default_for column_data_type =
     (if column_data_type = STRING then string_types
      else if column_data_type = INTEGER then number_types
      else [])"

section \<open>Metric and MetricDataPoint\<close>

text \<open>
  What a result cell or an attribute typed \<^verbatim>\<open>Any\<close> can hold: \<^verbatim>\<open>None\<close>, an int, a
  float, a string, an object of another numeric type that \<^verbatim>\<open>float()\<close> converts (a
  \<^verbatim>\<open>decimal.Decimal\<close>), given by the float it converts to, or an object of a type that
  \<^verbatim>\<open>float()\<close> does not convert (a list, a datetime). \<open>Finite q\<close> stands for the
  double nearest to the number \<open>q\<close>, which is below the overflow threshold in absolute
  value; the rounding of \<open>q\<close> to that double is not computed.
\<close>

datatype pyfloat = Finite rat | PosInf | NegInf | NaN

datatype pyval = PyNone | PyInt int | PyFloat pyfloat | PyStr string | PyNumber pyfloat
  | PyObject

record MetricDataPoint =
  point_value :: pyval
  window_start :: pyval
  window_end :: pyval

record Metric =
  table_name :: string
  column_name :: string
  metric_type :: MetricType
  metric_values :: "MetricDataPoint list"

subsection \<open>The SQL template of each metric\<close>

definition completeness :: string where
  "completeness = ''COUNT({}) / CAST(COUNT(*) AS NUMERIC)''"

definition approx_distinct_count :: string where
  "approx_distinct_count = ''COUNT(DISTINCT {})''"

definition approx_distinctness :: string where
  "approx_distinctness = ''COUNT(DISTINCT {}) / CAST(COUNT(*) AS NUMERIC)''"

definition mean_length :: string where
  "mean_length = ''AVG(LENGTH({}))''"

definition max_length :: string where
  "max_length = ''MAX(LENGTH({}))''"

definition min_length :: string where
  "min_length = ''MIN(LENGTH({}))''"

definition std_length :: string where
  "std_length = ''STDDEV(CAST(LENGTH({}) as double))''"

definition text_int_rate :: string where
  "text_int_rate =
     ''SUM(IFF(REGEXP_COUNT(TO_VARCHAR({}), '^([-+]?[0-9]+)$', 1, 'i') != 0, 1, 0)) / CAST(COUNT(*) AS NUMERIC)''"

definition text_number_rate :: string where
  "text_number_rate =
     ''SUM(IFF(REGEXP_COUNT(TO_VARCHAR({}), '^([-+]?[0-9]*[.]?[0-9]+([eE][-+]?[0-9]+)?)$', 1, 'i') != 0, 1, 0)) / CAST(COUNT(*) AS NUMERIC)''"

definition text_uuid_rate :: string where
  "text_uuid_rate =
     ''SUM(IFF(REGEXP_COUNT(TO_VARCHAR({}), '^([0-9a-fA-F]{{8}}-[0-9a-fA-F]{{4}}-[0-9a-fA-F]{{4}}-[0-9a-fA-F]{{4}}-[0-9a-fA-F]{{12}})$', 1, 'i') != 0, 1, 0)) / CAST(COUNT(*) AS NUMERIC)''"

text \<open>The Python literal writes four backslashes, which are two characters.\<close>

definition text_all_spaces_rate :: string where
  "text_all_spaces_rate =
     ''SUM(IFF(REGEXP_COUNT(TO_VARCHAR({}), '^('' @ [CHR 0x5C, CHR 0x5C] @
     ''s+)$', 1, 'i') != 0, 1, 0)) / CAST(COUNT(*) AS NUMERIC)''"

definition text_null_keyword_rate :: string where
  "text_null_keyword_rate =
     ''SUM(IFF(UPPER({}) IN ('NULL', 'NONE', 'NIL', 'NOTHING'), 1, 0)) / CAST(COUNT(*) AS NUMERIC)''"

definition zero_rate :: string where
  "zero_rate =
     ''SUM(IFF(UPPER({}) IN ('NULL', 'NONE', 'NIL', 'NOTHING'), 1, 0)) / CAST(COUNT(*) AS NUMERIC)''"

definition negative_rate :: string where
  "negative_rate = ''SUM(IFF({} < 0, 1, 0)) / CAST(COUNT(*) AS NUMERIC)''"

definition numeric_mean :: string where
  "numeric_mean = ''AVG({})''"

definition numeric_min :: string where
  "numeric_min = ''MIN({})''"

definition numeric_max :: string where
  "numeric_max = ''MAX({})''"

definition numeric_std :: string where
  "numeric_std = ''STDDEV(CAST({} as double))''"

text \<open>
  The chain of \<^verbatim>\<open>if\<close>/\<^verbatim>\<open>elif\<close> of \<^verbatim>\<open>_retrieve_unformatted_sql\<close>, branch by branch.
  Its last \<^verbatim>\<open>else\<close> raises for a metric type outside the enum, which the type has not.
\<close>

fun retrieve_unformatted_sql :: "MetricType \<Rightarrow> string" where
  "retrieve_unformatted_sql COMPLETENESS = completeness"
| "retrieve_unformatted_sql APPROX_DISTINCT_COUNT = approx_distinct_count"
| "retrieve_unformatted_sql APPROX_DISTINCTNESS = approx_distinctness"
| "retrieve_unformatted_sql MEAN_LENGTH = mean_length"
| "retrieve_unformatted_sql MAX_LENGTH = max_length"
| "retrieve_unformatted_sql MIN_LENGTH = min_length"
| "retrieve_unformatted_sql STD_LENGTH = std_length"
| "retrieve_unformatted_sql TEXT_INT_RATE = text_int_rate"
| "retrieve_unformatted_sql TEXT_NUMBER_RATE = text_number_rate"
| "retrieve_unformatted_sql TEXT_UUID_RATE = text_uuid_rate"
| "retrieve_unformatted_sql TEXT_ALL_SPACES_RATE = text_all_spaces_rate"
| "retrieve_unformatted_sql TEXT_NULL_KEYWORD_RATE = text_null_keyword_rate"
| "retrieve_unformatted_sql ZERO_RATE = zero_rate"
| "retrieve_unformatted_sql NEGATIVE_RATE = negative_rate"
| "retrieve_unformatted_sql NUMERIC_MEAN = numeric_mean"
| "retrieve_unformatted_sql NUMERIC_MIN = numeric_mean"
| "retrieve_unformatted_sql NUMERIC_MAX = numeric_max"
| "retrieve_unformatted_sql NUMERIC_STD = numeric_std"

text \<open>\<^verbatim>\<open>Metric.alias\<close>: \<^verbatim>\<open>"{}__{}".format(self.column_name, self.metric_type.value)\<close>\<close>

definition metric_alias :: "Metric \<Rightarrow> error + string" where
  "metric_alias m = py_format ''{}__{}'' [column_name m, metric_value (metric_type m)]"

text \<open>The expression of \<^verbatim>\<open>Metric.sql\<close> before its alias: the template of the metric
  type with the column name in its slot.\<close>

definition formatted_sql :: "Metric \<Rightarrow> error + string" where
  "formatted_sql m = py_format (retrieve_unformatted_sql (metric_type m)) [column_name m]"

text \<open>\<^verbatim>\<open>Metric.sql\<close>: \<^verbatim>\<open>"{sql} AS {alias}"\<close> with the two named fields filled in.\<close>

definition sql :: "Metric \<Rightarrow> error + string" where
  "sql m =
     (case formatted_sql m of
        Inl e \<Rightarrow> Inl e
      | Inr f \<Rightarrow>
          (case metric_alias m of
             Inl e \<Rightarrow> Inl e
           | Inr a \<Rightarrow> Inr (f @ '' AS '' @ a)))"

text \<open>\<^verbatim>\<open>Metric.parse_alias\<close>\<close>

definition parse_alias :: "string \<Rightarrow> error + (string \<times> string)" where
  "parse_alias a =
     (let parts = split_dunder (lower a)
      in if length parts \<noteq> 2 then Inl ParseError
         else Inr (lower (parts ! 0), lower (parts ! 1)))"

subsection \<open>float()\<close>

text \<open>
  \<^verbatim>\<open>float(s)\<close> for a string: surrounding whitespace is dropped (tab to carriage return,
  space, U+0085 and U+00A0), then an optional sign, then \<^verbatim>\<open>inf\<close>, \<^verbatim>\<open>infinity\<close> or
  \<^verbatim>\<open>nan\<close> in any case, or a decimal number: digits, an optional point and digits (one
  digit at least on either side), an optional exponent. Digits may be grouped by single
  underscores. Anything else is a ValueError. A number that rounds beyond the largest
  double is an infinity.
\<close>

definition is_space :: "char \<Rightarrow> bool" where
  "is_space c \<longleftrightarrow> (of_char c :: nat) \<in> set [9, 10, 11, 12, 13, 32, 133, 160]"

definition strip :: "string \<Rightarrow> string" where
  "strip s = rev (dropWhile is_space (rev (dropWhile is_space s)))"

definition digit_of :: "char \<Rightarrow> nat option" where
  "digit_of c =
     (let n = (of_char c :: nat) in if 48 \<le> n \<and> n \<le> 57 then Some (n - 48) else None)"

text \<open>The digits after the first one of a group: \<open>v\<close> is the number read so far and
  \<open>k\<close> the count of its digits; the rest of the string comes back.\<close>

fun digitpart_rest :: "nat \<Rightarrow> nat \<Rightarrow> string \<Rightarrow> nat \<times> nat \<times> string" where
  "digitpart_rest v k [] = (v, k, [])"
| "digitpart_rest v k [c] =
     (case digit_of c of
        Some d \<Rightarrow> (10 * v + d, Suc k, [])
      | None \<Rightarrow> (v, k, [c]))"
| "digitpart_rest v k (c # c' # cs) =
     (case digit_of c of
        Some d \<Rightarrow> digitpart_rest (10 * v + d) (Suc k) (c' # cs)
      | None \<Rightarrow>
          (if c = CHR ''_'' then
             (case digit_of c' of
                Some d \<Rightarrow> digitpart_rest (10 * v + d) (Suc k) cs
              | None \<Rightarrow> (v, k, c # c' # cs))
           else (v, k, c # c' # cs)))"

definition digitpart :: "nat \<Rightarrow> nat \<Rightarrow> string \<Rightarrow> (nat \<times> nat \<times> string) option" where
  "digitpart v k s =
     (case s of
        [] \<Rightarrow> None
      | c # cs \<Rightarrow>
          (case digit_of c of
             Some d \<Rightarrow> Some (digitpart_rest (10 * v + d) (Suc k) cs)
           | None \<Rightarrow> None))"

text \<open>The exponent, when the text goes on with \<^verbatim>\<open>e\<close> or \<^verbatim>\<open>E\<close>; then nothing may follow.\<close>

definition exponent :: "string \<Rightarrow> int option" where
  "exponent s =
     (case s of
        [] \<Rightarrow> Some 0
      | c # cs \<Rightarrow>
          if c = CHR ''e'' \<or> c = CHR ''E'' then
            (let (neg, ds) =
               (case cs of
                  [] \<Rightarrow> (False, [])
                | x # xs \<Rightarrow>
                    if x = CHR ''-'' then (True, xs)
                    else if x = CHR ''+'' then (False, xs)
                    else (False, cs))
             in case digitpart 0 0 ds of
                  Some (e, _, []) \<Rightarrow> Some (if neg then - int e else int e)
                | _ \<Rightarrow> None)
          else None)"

definition decimal :: "string \<Rightarrow> rat option" where
  "decimal s =
     (let (v, k, r) = (case digitpart 0 0 s of Some x \<Rightarrow> x | None \<Rightarrow> (0, 0, s));
          (w, n, t) =
            (case r of
               [] \<Rightarrow> (v, k, r)
             | c # cs \<Rightarrow>
                 if c = CHR ''.'' then
                   (case digitpart v k cs of Some x \<Rightarrow> x | None \<Rightarrow> (v, k, cs))
                 else (v, k, r))
      in if n = 0 then None
         else (case exponent t of
                 None \<Rightarrow> None
               | Some e \<Rightarrow>
                   (let x = e - int (n - k)
                    in Some (if 0 \<le> x then of_nat w * 10 ^ nat x
                             else of_nat w / 10 ^ nat (- x)))))"

definition float_of_string :: "string \<Rightarrow> pyfloat option" where
  "float_of_string s =
     (let t = strip s;
          (neg, u) =
            (case t of
               [] \<Rightarrow> (False, [])
             | c # cs \<Rightarrow>
                 if c = CHR ''-'' then (True, cs)
                 else if c = CHR ''+'' then (False, cs)
                 else (False, t))
      in if lower u = ''inf'' \<or> lower u = ''infinity''
         then Some (if neg then NegInf else PosInf)
         else if lower u = ''nan'' then Some NaN
         else (case decimal u of
                 None \<Rightarrow> None
               | Some q \<Rightarrow>
                   if of_int (2 ^ 1024 - 2 ^ 970) \<le> q then Some (if neg then NegInf else PosInf)
                   else Some (Finite (if neg then - q else q))))"

text \<open>
  \<^verbatim>\<open>float(x)\<close>: TypeError for \<^verbatim>\<open>None\<close> and for an object without a conversion,
  OverflowError for an int that rounds beyond the largest double, ValueError for a string
  that is not a number.
\<close>

definition py_float :: "pyval \<Rightarrow> error + pyfloat" where
  "py_float x =
     (case x of
        PyNone \<Rightarrow> Inl TypeError
      | PyInt i \<Rightarrow>
          if 2 ^ 1024 - 2 ^ 970 \<le> \<bar>i\<bar> then Inl OverflowError else Inr (Finite (of_int i))
      | PyFloat f \<Rightarrow> Inr f
      | PyStr s \<Rightarrow> (case float_of_string s of None \<Rightarrow> Inl ValueError | Some f \<Rightarrow> Inr f)
      | PyNumber f \<Rightarrow> Inr f
      | PyObject \<Rightarrow> Inl TypeError)"

text \<open>
  \<^verbatim>\<open>Metric.nonnull_values\<close>: the loop assigns \<^verbatim>\<open>float(point.value)\<close> to each point in
  place and passes over any exception; the result is the points whose value is not
  \<^verbatim>\<open>None\<close>. The metric comes back with its points as the loop left them.
\<close>

definition coerce_point :: "MetricDataPoint \<Rightarrow> MetricDataPoint" where
  "coerce_point point =
     (case py_float (point_value point) of
        Inr f \<Rightarrow> point\<lparr>point_value := PyFloat f\<rparr>
      | Inl e \<Rightarrow> point)"

definition nonnull_values :: "Metric \<Rightarrow> Metric \<times> MetricDataPoint list" where
  "nonnull_values m =
     (let vs = fold (\<lambda>i ps. ps[i := coerce_point (ps ! i)])
                 [0..<length (metric_values m)] (metric_values m)
      in (m\<lparr>metric_values := vs\<rparr>, filter (\<lambda>x. point_value x \<noteq> PyNone) vs))"

section \<open>MetricCompiler\<close>

text \<open>
  Modelled from the spec: the column descriptor class of \<^verbatim>\<open>monosi.drivers.column\<close> and
  the \<^verbatim>\<open>Monitor\<close> base class are not among the source files. The compiler reads
  \<^verbatim>\<open>column.name\<close> and \<^verbatim>\<open>column.data_type\<close>; the spec's descriptor is
  \<^verbatim>\<open>{name: string, data_category}\<close>. The monitor is the dataclass of the source with its
  five fields (its \<^verbatim>\<open>columns\<close>, \<^verbatim>\<open>metrics\<close> and \<^verbatim>\<open>where\<close> under longer names).
\<close>

record Column =
  name :: string
  data_type :: ColumnDataType

record TableMetricsMonitor =
  table :: string
  timestamp_field :: string
  monitor_columns :: "string list option"
  monitor_metrics :: "string list option"
  monitor_where :: string

text \<open>
  The compiler's only field is \<^verbatim>\<open>self.metrics\<close>, the list of the Metric objects of the
  last build. The list is the store of these objects: an object is referred to by its
  position, and the dictionaries of \<^verbatim>\<open>_metric_map\<close> hold positions.
\<close>

type_synonym MetricCompiler = "Metric list"

definition SPECIAL_KEYS :: "string list" where
  "SPECIAL_KEYS = [''window_start'', ''window_end'', ''row_count'']"

text \<open>\<^verbatim>\<open>BASE_SQL.format(metric_sql=..., timestamp_field=..., table=..., days_ago=...)\<close>\<close>

definition BASE_SQL :: "string \<Rightarrow> string \<Rightarrow> string \<Rightarrow> string \<Rightarrow> string" where
  "BASE_SQL metric_sql ts_field tbl days_ago =
     ''\<newline>    SELECT \<newline>        DATE_TRUNC('HOUR', '' @ ts_field @
     '') as window_start, \<newline>        DATEADD(hr, 1, DATE_TRUNC('HOUR', '' @ ts_field @
     '')) as window_end, \<newline>\<newline>        COUNT(*) as row_count, \<newline>\<newline>        '' @
     metric_sql @
     ''\<newline>\<newline>    FROM '' @ tbl @
     ''\<newline>    WHERE \<newline>        DATE_TRUNC('HOUR', '' @ ts_field @
     '') >= DATEADD(day, '' @ days_ago @
     '', CURRENT_TIMESTAMP()) \<newline>    GROUP BY window_start, window_end \<newline>    ORDER BY window_start ASC;\<newline>    ''"

text \<open>\<^verbatim>\<open>_create_metrics\<close>: for each column, for each default metric type of its data
  type, a Metric with no values, appended in this order.\<close>

definition create_metrics :: "string \<Rightarrow> Column list \<Rightarrow> Metric list" where
  "create_metrics tbl cols =
     concat (map (\<lambda>column.
        map (\<lambda>mt. \<lparr>table_name = tbl, column_name = name column, metric_type = mt,
                     metric_values = []\<rparr>)
            (default_for (data_type column))) cols)"

text \<open>The list comprehension \<^verbatim>\<open>[metric.sql() for metric in self.metrics]\<close>.\<close>

fun sql_each :: "Metric list \<Rightarrow> error + string list" where
  "sql_each [] = Inr []"
| "sql_each (m # ms) =
     (case sql m of
        Inl e \<Rightarrow> Inl e
      | Inr f \<Rightarrow> (case sql_each ms of Inl e \<Rightarrow> Inl e | Inr fs \<Rightarrow> Inr (f # fs)))"

text \<open>\<^verbatim>\<open>build_query\<close> replaces \<^verbatim>\<open>self.metrics\<close> and returns the query; the compiler
  comes back with it.\<close>

definition build_query ::
  "MetricCompiler \<Rightarrow> TableMetricsMonitor \<Rightarrow> Column list \<Rightarrow> error + (MetricCompiler \<times> string)"
where
  "build_query self monitor cols =
     (let ms = create_metrics (table monitor) cols
      in case sql_each ms of
           Inl e \<Rightarrow> Inl e
         | Inr fragments \<Rightarrow>
             Inr (ms, BASE_SQL (join '',\<newline>'' fragments) (timestamp_field monitor)
                        (table monitor) ''-85788''))"

text \<open>
  A dict is an association list in insertion order with distinct keys: \<open>dict_get\<close> is
  \<^verbatim>\<open>d[k]\<close>, \<open>AList.update\<close> is \<^verbatim>\<open>d[k] = v\<close> (a new key goes last, a known key keeps
  its place).
\<close>

definition dict_get :: "('k \<times> 'v) list \<Rightarrow> 'k \<Rightarrow> error + 'v" where
  "dict_get d k = (case map_of d k of None \<Rightarrow> Inl KeyError | Some v \<Rightarrow> Inr v)"

type_synonym metric_map = "(string \<times> (string \<times> nat) list) list"

text \<open>\<^verbatim>\<open>_metric_map\<close>: the loop over \<^verbatim>\<open>self.metrics\<close>, the metric at position \<open>i\<close> first.\<close>

fun metric_map_from :: "nat \<Rightarrow> Metric list \<Rightarrow> metric_map \<Rightarrow> metric_map" where
  "metric_map_from i [] mm = mm"
| "metric_map_from i (metric # rest) mm =
     (let cn = lower (column_name metric);
          mn = lower (metric_value (metric_type metric));
          inner = (case map_of mm cn of None \<Rightarrow> [] | Some d \<Rightarrow> d)
      in metric_map_from (Suc i) rest (AList.update cn (AList.update mn i inner) mm))"

definition metric_map :: "MetricCompiler \<Rightarrow> metric_map" where
  "metric_map self = metric_map_from 0 self []"

type_synonym row = "(string \<times> pyval) list"

text \<open>\<^verbatim>\<open>metric.values.append(data_point)\<close> for the metric at position \<open>r\<close>.\<close>

definition append_point :: "MetricCompiler \<Rightarrow> nat \<Rightarrow> MetricDataPoint \<Rightarrow> MetricCompiler" where
  "append_point ms r p = ms[r := (ms ! r)\<lparr>metric_values := metric_values (ms ! r) @ [p]\<rparr>]"

text \<open>The \<^verbatim>\<open>try\<close> around \<^verbatim>\<open>float(row[alias])\<close>: a TypeError gives \<^verbatim>\<open>None\<close>, any other
  exception goes on.\<close>

definition cell_value :: "pyval \<Rightarrow> error + pyval" where
  "cell_value cell =
     (case py_float cell of
        Inr f \<Rightarrow> Inr (PyFloat f)
      | Inl e \<Rightarrow> if e = TypeError then Inr PyNone else Inl e)"

text \<open>The body of the loop over the keys of a row.\<close>

definition interpret_cell ::
  "metric_map \<Rightarrow> row \<Rightarrow> pyval \<Rightarrow> pyval \<Rightarrow> string \<Rightarrow> MetricCompiler \<Rightarrow> error + MetricCompiler"
where
  "interpret_cell mm r ws we a ms =
     (if \<not> contains_dunder a then Inr ms
      else
        (case parse_alias a of
           Inl e \<Rightarrow> Inl e
         | Inr (cn, mn) \<Rightarrow>
             (case dict_get mm cn of
                Inl e \<Rightarrow> Inl e
              | Inr inner \<Rightarrow>
                  (case dict_get inner mn of
                     Inl e \<Rightarrow> Inl e
                   | Inr metric \<Rightarrow>
                       (case dict_get r a of
                          Inl e \<Rightarrow> Inl e
                        | Inr cell \<Rightarrow>
                            (case cell_value cell of
                               Inl e \<Rightarrow> Inl e
                             | Inr v \<Rightarrow>
                                 Inr (append_point ms metric
                                        \<lparr>point_value = v, window_start = ws,
                                           window_end = we\<rparr>)))))))"

fun interpret_keys ::
  "metric_map \<Rightarrow> row \<Rightarrow> pyval \<Rightarrow> pyval \<Rightarrow> string list \<Rightarrow> MetricCompiler \<Rightarrow> error + MetricCompiler"
where
  "interpret_keys mm r ws we [] ms = Inr ms"
| "interpret_keys mm r ws we (a # as) ms =
     (case interpret_cell mm r ws we a ms of
        Inl e \<Rightarrow> Inl e
      | Inr ms' \<Rightarrow> interpret_keys mm r ws we as ms')"

text \<open>The loop over the rows: the three window cells are read first (a KeyError when
  one is missing), then every key of the row is visited.\<close>

fun interpret_rows :: "metric_map \<Rightarrow> row list \<Rightarrow> MetricCompiler \<Rightarrow> error + MetricCompiler" where
  "interpret_rows mm [] ms = Inr ms"
| "interpret_rows mm (r # rs) ms =
     (case dict_get r ''WINDOW_START'' of
        Inl e \<Rightarrow> Inl e
      | Inr ws \<Rightarrow>
          (case dict_get r ''WINDOW_END'' of
             Inl e \<Rightarrow> Inl e
           | Inr we \<Rightarrow>
               (case dict_get r ''ROW_COUNT'' of
                  Inl e \<Rightarrow> Inl e
                | Inr row_count \<Rightarrow>
                    (case interpret_keys mm r ws we (map fst r) ms of
                       Inl e \<Rightarrow> Inl e
                     | Inr ms' \<Rightarrow> interpret_rows mm rs ms'))))"

text \<open>The two loops that flatten the map: the keys of a dict, each looked up in it.\<close>

fun lookup_each :: "('k \<times> 'v) list \<Rightarrow> 'k list \<Rightarrow> error + 'v list" where
  "lookup_each d [] = Inr []"
| "lookup_each d (k # ks) =
     (case dict_get d k of
        Inl e \<Rightarrow> Inl e
      | Inr v \<Rightarrow> (case lookup_each d ks of Inl e \<Rightarrow> Inl e | Inr vs \<Rightarrow> Inr (v # vs)))"

fun flatten_columns :: "metric_map \<Rightarrow> string list \<Rightarrow> error + nat list" where
  "flatten_columns mm [] = Inr []"
| "flatten_columns mm (column # columns) =
     (case dict_get mm column of
        Inl e \<Rightarrow> Inl e
      | Inr inner \<Rightarrow>
          (case lookup_each inner (map fst inner) of
             Inl e \<Rightarrow> Inl e
           | Inr ms \<Rightarrow>
               (case flatten_columns mm columns of
                  Inl e \<Rightarrow> Inl e
                | Inr rest \<Rightarrow> Inr (ms @ rest))))"

text \<open>
  \<^verbatim>\<open>interpret_results\<close>: the compiler after the call and the positions of the Metric
  objects in the returned list, or the exception that ended the call.
\<close>

definition interpret_results ::
  "MetricCompiler \<Rightarrow> (string \<times> row list) list \<Rightarrow> error + (MetricCompiler \<times> nat list)"
where
  "interpret_results self results =
     (let mm = metric_map self
      in case dict_get results ''rows'' of
           Inl e \<Rightarrow> Inl e
         | Inr rs \<Rightarrow>
             (case interpret_rows mm rs self of
                Inl e \<Rightarrow> Inl e
              | Inr ms \<Rightarrow>
                  (case flatten_columns mm (map fst mm) of
                     Inl e \<Rightarrow> Inl e
                   | Inr metrics \<Rightarrow> Inr (ms, metrics))))"

section \<open>Notions used in the proofs\<close>

text \<open>A list of appends, each a position and a data point, applied in order; and
  the functions on the compiler that either raise whatever the compiler holds, or apply a
  list of appends that does not depend on what it holds.\<close>

definition apply_updates :: "(nat \<times> MetricDataPoint) list \<Rightarrow> MetricCompiler \<Rightarrow> MetricCompiler" where
  "apply_updates us ms = fold (\<lambda>u acc. append_point acc (fst u) (snd u)) us ms"

definition appends_only :: "(MetricCompiler \<Rightarrow> error + MetricCompiler) \<Rightarrow> bool" where
  "appends_only f \<longleftrightarrow>
     (\<exists>res. \<forall>ms. f ms = (case res of Inl e \<Rightarrow> Inl e | Inr us \<Rightarrow> Inr (apply_updates us ms)))"

section \<open>Strings: lower, split and format\<close>

lemma prepend_Inr [simp]: "prepend s (Inr t) = Inr (s @ t)"
  by (simp add: prepend_def)

lemma prepend_Inl [simp]: "prepend s (Inl e) = Inl e"
  by (simp add: prepend_def)

lemma of_char_lower_char:
  "(of_char (lower_char c) :: nat) =
     (if (65 \<le> (of_char c :: nat) \<and> (of_char c :: nat) \<le> 90)
         \<or> (192 \<le> (of_char c :: nat) \<and> (of_char c :: nat) \<le> 222
             \<and> (of_char c :: nat) \<noteq> 215)
      then of_char c + 32 else of_char c)"
  by (simp add: lower_char_def Let_def)

lemma lower_char_underscore [simp]: "lower_char c = CHR ''_'' \<longleftrightarrow> c = CHR ''_''"
proof -
  have "lower_char c = CHR ''_'' \<longleftrightarrow> (of_char (lower_char c) :: nat) = of_char CHR ''_''"
    by (simp only: of_char_eq_iff)
  also have "\<dots> \<longleftrightarrow> (of_char c :: nat) = of_char CHR ''_''"
    by (simp add: of_char_lower_char)
  also have "\<dots> \<longleftrightarrow> c = CHR ''_''"
    by (simp only: of_char_eq_iff)
  finally show ?thesis .
qed

lemma lower_char_idem [simp]: "lower_char (lower_char c) = lower_char c"
proof -
  have "(of_char (lower_char (lower_char c)) :: nat) = of_char (lower_char c)"
    by (simp add: of_char_lower_char)
  then show ?thesis by (simp only: of_char_eq_iff)
qed

lemma lower_idem [simp]: "lower (lower s) = lower s"
  by (simp add: lower_def)

lemma lower_append [simp]: "lower (s @ t) = lower s @ lower t"
  by (simp add: lower_def)

lemma split_dunder_nonempty [simp]: "split_dunder s \<noteq> []"
  by (induction s rule: split_dunder.induct) (auto split: list.splits)

text \<open>Lowering a string moves no separator: the pieces of the lowered string are the
  lowered pieces.\<close>

lemma split_dunder_lower: "split_dunder (lower s) = map lower (split_dunder s)"
proof (induction s rule: split_dunder.induct)
  case (1 a b rest)
  then show ?case
    by (cases "split_dunder (b # rest)") (auto simp: lower_def)
qed (simp_all add: lower_def)

lemma split_dunder_none: "\<not> contains_dunder s \<Longrightarrow> split_dunder s = [s]"
  by (induction s rule: split_dunder.induct) auto

lemma split_dunder_append:
  "\<not> contains_dunder s \<Longrightarrow> s = [] \<or> last s \<noteq> CHR ''_''
   \<Longrightarrow> split_dunder (s @ CHR ''_'' # CHR ''_'' # t) = s # split_dunder t"
  by (induction s rule: split_dunder.induct) (auto split: list.splits)

lemma lower_metric_value [simp]: "lower (metric_value k) = metric_value k"
  by (cases k; simp add: lower_def lower_char_def)

lemma metric_value_no_dunder [simp]: "\<not> contains_dunder (metric_value k)"
  by (cases k; simp)

lemma metric_alias_eq:
  "metric_alias m = Inr (column_name m @ ''__'' @ metric_value (metric_type m))"
  by (simp add: metric_alias_def)

lemma parse_alias_split:
  "parse_alias a =
     (if length (split_dunder a) = 2
      then Inr (lower (split_dunder a ! 0), lower (split_dunder a ! 1))
      else Inl ParseError)"
  by (auto simp add: parse_alias_def Let_def split_dunder_lower)

section \<open>The catalogue of metric types and their SQL\<close>

text \<open>
  C6: \<^verbatim>\<open>default_for\<close> returns the fixed list of twelve kinds for a STRING column, the
  fixed list of eight kinds for an INTEGER column, and the empty list, without an error,
  for a column of any other data type.
\<close>

theorem default_for_catalog:
  "default_for STRING =
     [COMPLETENESS, APPROX_DISTINCT_COUNT, APPROX_DISTINCTNESS, MEAN_LENGTH, MAX_LENGTH,
      MIN_LENGTH, STD_LENGTH, TEXT_INT_RATE, TEXT_NUMBER_RATE, TEXT_UUID_RATE,
      TEXT_ALL_SPACES_RATE, TEXT_NULL_KEYWORD_RATE]
   \<and> length (default_for STRING) = 12
   \<and> default_for INTEGER =
     [COMPLETENESS, ZERO_RATE, NEGATIVE_RATE, APPROX_DISTINCTNESS, NUMERIC_MEAN,
      NUMERIC_MIN, NUMERIC_MAX, NUMERIC_STD]
   \<and> length (default_for INTEGER) = 8
   \<and> default_for (OTHER n) = []"
  by (simp add: default_for_def string_types_def number_types_def)

text \<open>
  C3: the claim is that NUMERIC_MIN renders \<^verbatim>\<open>MIN(c)\<close>. The branch for NUMERIC_MIN in
  \<^verbatim>\<open>_retrieve_unformatted_sql\<close> calls \<^verbatim>\<open>numeric_mean\<close>, so for every column name the
  expression rendered for NUMERIC_MIN is \<^verbatim>\<open>AVG(c)\<close>, the one of NUMERIC_MEAN, and not the
  template of \<^verbatim>\<open>numeric_min\<close>; NUMERIC_MAX renders \<^verbatim>\<open>MAX(c)\<close>.
\<close>

theorem numeric_min_renders_mean:
  "formatted_sql \<lparr>table_name = t, column_name = c, metric_type = NUMERIC_MIN, metric_values = vs\<rparr>
     = Inr (''AVG('' @ c @ '')'')
   \<and> formatted_sql \<lparr>table_name = t, column_name = c, metric_type = NUMERIC_MIN, metric_values = vs\<rparr>
     \<noteq> py_format numeric_min [c]
   \<and> py_format numeric_min [c] = Inr (''MIN('' @ c @ '')'')
   \<and> formatted_sql \<lparr>table_name = t, column_name = c, metric_type = NUMERIC_MEAN, metric_values = vs\<rparr>
     = Inr (''AVG('' @ c @ '')'')
   \<and> formatted_sql \<lparr>table_name = t, column_name = c, metric_type = NUMERIC_MAX, metric_values = vs\<rparr>
     = Inr (''MAX('' @ c @ '')'')"
  by (simp add: formatted_sql_def numeric_mean_def numeric_min_def numeric_max_def)

text \<open>
  C7: for every column name, the expression rendered for ZERO_RATE is the text rendered
  for TEXT_NULL_KEYWORD_RATE: the share of rows whose uppercased value is one of NULL,
  NONE, NIL, NOTHING.
\<close>

theorem zero_rate_is_null_keyword_rate:
  "formatted_sql \<lparr>table_name = t, column_name = c, metric_type = ZERO_RATE, metric_values = vs\<rparr>
     = formatted_sql \<lparr>table_name = t, column_name = c, metric_type = TEXT_NULL_KEYWORD_RATE,
                      metric_values = vs\<rparr>
   \<and> formatted_sql \<lparr>table_name = t, column_name = c, metric_type = ZERO_RATE, metric_values = vs\<rparr>
     = Inr (''SUM(IFF(UPPER('' @ c @
            '') IN ('NULL', 'NONE', 'NIL', 'NOTHING'), 1, 0)) / CAST(COUNT(*) AS NUMERIC)'')"
  by (simp add: formatted_sql_def zero_rate_def text_null_keyword_rate_def)

section \<open>The alias of a metric and its parsing\<close>

text \<open>
  C4, as the code has it: \<^verbatim>\<open>parse_alias\<close> lowers what it reads and \<^verbatim>\<open>alias\<close> does not,
  and a column name that ends with an underscore moves the separator. For every metric
  whose column name has no \<^verbatim>\<open>__\<close> in it and does not end with \<^verbatim>\<open>_\<close>, parsing the alias
  of the metric gives the lowered column name and the value string of the metric type.
\<close>

theorem alias_roundtrip:
  assumes "\<not> contains_dunder (column_name m)"
    and "column_name m = [] \<or> last (column_name m) \<noteq> CHR ''_''"
  shows "(case metric_alias m of Inl e \<Rightarrow> Inl e | Inr a \<Rightarrow> parse_alias a)
           = Inr (lower (column_name m), metric_value (metric_type m))"
proof -
  have "split_dunder (column_name m @ ''__'' @ metric_value (metric_type m))
          = [column_name m, metric_value (metric_type m)]"
    using assms split_dunder_append [of "column_name m" "metric_value (metric_type m)"]
    by (simp add: split_dunder_none)
  then show ?thesis
    by (simp add: metric_alias_eq parse_alias_split)
qed

theorem alias_roundtrip_witness:
  "\<not> contains_dunder ''status''
   \<and> last ''status'' \<noteq> CHR ''_''
   \<and> (case metric_alias \<lparr>table_name = ''orders'', column_name = ''status'',
                           metric_type = COMPLETENESS, metric_values = []\<rparr>
       of Inl e \<Rightarrow> Inl e | Inr a \<Rightarrow> parse_alias a) = Inr (''status'', ''completeness'')"
  using alias_roundtrip [of "\<lparr>table_name = ''orders'', column_name = ''status'',
                               metric_type = COMPLETENESS, metric_values = []\<rparr>"]
  by (simp add: lower_def lower_char_def)

text \<open>The claim as stated fails for a column name with a capital letter, and for one
  that ends with an underscore.\<close>

theorem alias_roundtrip_counterexample:
  "\<not> contains_dunder ''Status''
   \<and> (case metric_alias \<lparr>table_name = ''orders'', column_name = ''Status'',
                           metric_type = COMPLETENESS, metric_values = []\<rparr>
       of Inl e \<Rightarrow> Inl e | Inr a \<Rightarrow> parse_alias a) = Inr (''status'', ''completeness'')
   \<and> Inr (''status'', ''completeness'') \<noteq> (Inr (''Status'', ''completeness'') :: error + string \<times> string)
   \<and> \<not> contains_dunder ''a_''
   \<and> (case metric_alias \<lparr>table_name = ''orders'', column_name = ''a_'',
                           metric_type = COMPLETENESS, metric_values = []\<rparr>
       of Inl e \<Rightarrow> Inl e | Inr a \<Rightarrow> parse_alias a) = Inr (''a'', ''_completeness'')
   \<and> Inr (''a'', ''_completeness'') \<noteq> (Inr (''a_'', ''completeness'') :: error + string \<times> string)"
  by code_simp

text \<open>
  C5, as the code has it: \<^verbatim>\<open>parse_alias\<close> tests the number of parts only. It succeeds if
  and only if splitting the input on \<^verbatim>\<open>__\<close> gives exactly two parts, empty or not, and
  then returns the two parts lowered; in every other case it fails with its parse error.
\<close>

theorem parse_alias_two_parts:
  "parse_alias a =
     (if length (split_dunder a) = 2
      then Inr (lower (split_dunder a ! 0), lower (split_dunder a ! 1))
      else Inl ParseError)
   \<and> ((\<exists>p. parse_alias a = Inr p) \<longleftrightarrow> length (split_dunder a) = 2)"
  by (simp add: parse_alias_split)

text \<open>The claim as stated fails where a part is empty: the parse succeeds.\<close>

theorem parse_alias_empty_part_counterexample:
  "split_dunder ''__x'' = ['''', ''x'']
   \<and> parse_alias ''__x'' = Inr ('''', ''x'')
   \<and> split_dunder ''x__'' = [''x'', '''']
   \<and> parse_alias ''x__'' = Inr (''x'', '''')"
  by (simp add: parse_alias_def lower_def lower_char_def)

section \<open>Metric.nonnull_values\<close>

text \<open>The loop that assigns to every position in turn is a map over the list.\<close>

lemma update_loop_take:
  "n \<le> length xs \<Longrightarrow>
   fold (\<lambda>i ps. ps[i := f (ps ! i)]) [0..<n] xs = map f (take n xs) @ drop n xs"
proof (induction n)
  case 0
  then show ?case by simp
next
  case (Suc n)
  then have n: "n < length xs" by simp
  have "fold (\<lambda>i ps. ps[i := f (ps ! i)]) [0..<Suc n] xs
          = (map f (take n xs) @ drop n xs)[n := f ((map f (take n xs) @ drop n xs) ! n)]"
    using Suc by simp
  also have "\<dots> = map f (take n xs) @ (drop n xs)[0 := f (xs ! n)]"
    using n by (simp add: list_update_append nth_append)
  also have "(drop n xs)[0 := f (xs ! n)] = f (xs ! n) # drop (Suc n) xs"
    using n by (simp add: Cons_nth_drop_Suc [symmetric])
  also have "map f (take n xs) @ f (xs ! n) # drop (Suc n) xs
               = map f (take (Suc n) xs) @ drop (Suc n) xs"
    using n by (simp add: take_Suc_conv_app_nth)
  finally show ?case .
qed

lemma update_loop_map:
  "fold (\<lambda>i ps. ps[i := f (ps ! i)]) [0..<length xs] xs = map f xs"
  by (simp add: update_loop_take)

lemma nonnull_values_eq:
  "nonnull_values m =
     (m\<lparr>metric_values := map coerce_point (metric_values m)\<rparr>,
      filter (\<lambda>x. point_value x \<noteq> PyNone) (map coerce_point (metric_values m)))"
  by (simp add: nonnull_values_def update_loop_map Let_def)

lemma coerce_point_None [simp]:
  "point_value (coerce_point p) = PyNone \<longleftrightarrow> point_value p = PyNone"
  by (cases "point_value p")
     (auto simp: coerce_point_def py_float_def split: sum.splits option.splits)

text \<open>
  C10: \<^verbatim>\<open>nonnull_values\<close> first replaces, in place, the value of each point by its float
  where \<^verbatim>\<open>float()\<close> succeeds and leaves the point as it was where it raises; it returns
  the points, in order, whose value is then not \<^verbatim>\<open>None\<close>. A point is returned if and only
  if its value was not \<^verbatim>\<open>None\<close> before the call.
\<close>

theorem nonnull_values_spec:
  assumes "nonnull_values m = (m', r)"
  shows "length (metric_values m') = length (metric_values m)
     \<and> (\<forall>i < length (metric_values m).
          (case py_float (point_value (metric_values m ! i)) of
             Inr f \<Rightarrow> metric_values m' ! i = (metric_values m ! i)\<lparr>point_value := PyFloat f\<rparr>
           | Inl e \<Rightarrow> metric_values m' ! i = metric_values m ! i))
     \<and> r = filter (\<lambda>x. point_value x \<noteq> PyNone) (metric_values m')
     \<and> r = map coerce_point (filter (\<lambda>x. point_value x \<noteq> PyNone) (metric_values m))
     \<and> table_name m' = table_name m \<and> column_name m' = column_name m
     \<and> metric_type m' = metric_type m"
proof -
  from assms have m': "m' = m\<lparr>metric_values := map coerce_point (metric_values m)\<rparr>"
    and r: "r = filter (\<lambda>x. point_value x \<noteq> PyNone) (map coerce_point (metric_values m))"
    by (simp_all add: nonnull_values_eq)
  have a: "\<forall>i < length (metric_values m).
          (case py_float (point_value (metric_values m ! i)) of
             Inr f \<Rightarrow> metric_values m' ! i = (metric_values m ! i)\<lparr>point_value := PyFloat f\<rparr>
           | Inl e \<Rightarrow> metric_values m' ! i = metric_values m ! i)"
    by (auto simp: m' coerce_point_def split: sum.splits)
  have b: "r = map coerce_point (filter (\<lambda>x. point_value x \<noteq> PyNone) (metric_values m))"
    by (simp add: r filter_map comp_def)
  have c: "r = filter (\<lambda>x. point_value x \<noteq> PyNone) (metric_values m')"
    by (simp add: r m')
  show ?thesis using a b c by (simp add: m')
qed

theorem nonnull_values_spec_witness:
  "nonnull_values
     \<lparr>table_name = ''orders'', column_name = ''status'', metric_type = COMPLETENESS,
        metric_values =
          [\<lparr>point_value = PyStr ''1.5'', window_start = PyInt 0, window_end = PyInt 1\<rparr>,
           \<lparr>point_value = PyNone, window_start = PyInt 1, window_end = PyInt 2\<rparr>,
           \<lparr>point_value = PyStr ''abc'', window_start = PyInt 2, window_end = PyInt 3\<rparr>]\<rparr>
   = (\<lparr>table_name = ''orders'', column_name = ''status'', metric_type = COMPLETENESS,
        metric_values =
          [\<lparr>point_value = PyFloat (Finite (3 / 2)), window_start = PyInt 0, window_end = PyInt 1\<rparr>,
           \<lparr>point_value = PyNone, window_start = PyInt 1, window_end = PyInt 2\<rparr>,
           \<lparr>point_value = PyStr ''abc'', window_start = PyInt 2, window_end = PyInt 3\<rparr>]\<rparr>,
      [\<lparr>point_value = PyFloat (Finite (3 / 2)), window_start = PyInt 0, window_end = PyInt 1\<rparr>,
       \<lparr>point_value = PyStr ''abc'', window_start = PyInt 2, window_end = PyInt 3\<rparr>])
   \<and> [\<lparr>point_value = PyFloat (Finite (3 / 2)), window_start = PyInt 0, window_end = PyInt 1\<rparr>,
       \<lparr>point_value = PyStr ''abc'', window_start = PyInt 2, window_end = PyInt 3\<rparr>]
      = map coerce_point (filter (\<lambda>x. point_value x \<noteq> PyNone)
          [\<lparr>point_value = PyStr ''1.5'', window_start = PyInt 0, window_end = PyInt 1\<rparr>,
           \<lparr>point_value = PyNone, window_start = PyInt 1, window_end = PyInt 2\<rparr>,
           \<lparr>point_value = PyStr ''abc'', window_start = PyInt 2, window_end = PyInt 3\<rparr>])"
proof -
  have h: "nonnull_values
     \<lparr>table_name = ''orders'', column_name = ''status'', metric_type = COMPLETENESS,
        metric_values =
          [\<lparr>point_value = PyStr ''1.5'', window_start = PyInt 0, window_end = PyInt 1\<rparr>,
           \<lparr>point_value = PyNone, window_start = PyInt 1, window_end = PyInt 2\<rparr>,
           \<lparr>point_value = PyStr ''abc'', window_start = PyInt 2, window_end = PyInt 3\<rparr>]\<rparr>
   = (\<lparr>table_name = ''orders'', column_name = ''status'', metric_type = COMPLETENESS,
        metric_values =
          [\<lparr>point_value = PyFloat (Finite (3 / 2)), window_start = PyInt 0, window_end = PyInt 1\<rparr>,
           \<lparr>point_value = PyNone, window_start = PyInt 1, window_end = PyInt 2\<rparr>,
           \<lparr>point_value = PyStr ''abc'', window_start = PyInt 2, window_end = PyInt 3\<rparr>]\<rparr>,
      [\<lparr>point_value = PyFloat (Finite (3 / 2)), window_start = PyInt 0, window_end = PyInt 1\<rparr>,
       \<lparr>point_value = PyStr ''abc'', window_start = PyInt 2, window_end = PyInt 3\<rparr>])"
    by code_simp
  from nonnull_values_spec [OF h] show ?thesis
    using h by simp
qed

section \<open>build_query\<close>

lemma formatted_sql_total: "\<exists>f. formatted_sql m = Inr f"
  by (cases "metric_type m";
      simp add: formatted_sql_def completeness_def approx_distinct_count_def
        approx_distinctness_def mean_length_def max_length_def min_length_def std_length_def
        text_int_rate_def text_number_rate_def text_uuid_rate_def text_all_spaces_rate_def
        text_null_keyword_rate_def zero_rate_def negative_rate_def numeric_mean_def
        numeric_max_def numeric_std_def)

lemma sql_total:
  "\<exists>f. formatted_sql m = Inr f
       \<and> sql m = Inr (f @ '' AS '' @ column_name m @ ''__'' @ metric_value (metric_type m))"
  using formatted_sql_total [of m] by (auto simp: sql_def metric_alias_eq)

lemma sql_each_total: "\<exists>fs. sql_each ms = Inr fs \<and> length fs = length ms"
proof (induction ms)
  case Nil
  then show ?case by simp
next
  case (Cons m ms)
  then show ?case using sql_total [of m] by auto
qed

lemma build_query_total:
  "\<exists>fs. sql_each (create_metrics (table monitor) cols) = Inr fs
        \<and> length fs = length (create_metrics (table monitor) cols)
        \<and> build_query self monitor cols =
            Inr (create_metrics (table monitor) cols,
                 BASE_SQL (join '',\<newline>'' fs) (timestamp_field monitor) (table monitor) ''-85788'')"
  using sql_each_total [of "create_metrics (table monitor) cols"]
  by (auto simp: build_query_def Let_def)

lemma build_query_metrics:
  "build_query self monitor cols = Inr (ms, q) \<Longrightarrow> ms = create_metrics (table monitor) cols"
  by (auto simp: build_query_def Let_def split: sum.splits)

lemma create_metrics_pairs:
  "map (\<lambda>m. (column_name m, metric_type m)) (create_metrics tbl cols)
     = concat (map (\<lambda>column. map (Pair (name column)) (default_for (data_type column))) cols)"
  by (induction cols) (simp_all add: create_metrics_def comp_def)

text \<open>
  C2, as the code has it: \<^verbatim>\<open>build_query\<close> does not look at \<^verbatim>\<open>SPECIAL_KEYS\<close> or at any
  column name. For every monitor and every list of columns it succeeds, and it creates
  one Metric and one SQL fragment for each input column and each default metric type of
  the column's data type, in this order, whatever the column is called.
\<close>

theorem build_query_every_column:
  "\<exists>ms fragments.
      build_query self monitor cols =
        Inr (ms, BASE_SQL (join '',\<newline>'' fragments) (timestamp_field monitor)
                   (table monitor) ''-85788'')
    \<and> map (\<lambda>m. (column_name m, metric_type m)) ms
        = concat (map (\<lambda>column. map (Pair (name column)) (default_for (data_type column))) cols)
    \<and> sql_each ms = Inr fragments
    \<and> length fragments = length ms"
  using build_query_total [of monitor cols self] create_metrics_pairs [of "table monitor" cols]
  by auto

text \<open>The claim as stated fails for a column named \<^verbatim>\<open>row_count\<close>: it gets its eight
  metrics and its fragments like any other INTEGER column.\<close>

theorem build_query_row_count_counterexample:
  "map_sum id fst
     (build_query []
        \<lparr>table = ''orders'', timestamp_field = ''created_at'', monitor_columns = Some [],
           monitor_metrics = Some [], monitor_where = ''''\<rparr>
        [\<lparr>name = ''row_count'', data_type = INTEGER\<rparr>])
   = Inr [\<lparr>table_name = ''orders'', column_name = ''row_count'', metric_type = COMPLETENESS, metric_values = []\<rparr>,
          \<lparr>table_name = ''orders'', column_name = ''row_count'', metric_type = ZERO_RATE, metric_values = []\<rparr>,
          \<lparr>table_name = ''orders'', column_name = ''row_count'', metric_type = NEGATIVE_RATE, metric_values = []\<rparr>,
          \<lparr>table_name = ''orders'', column_name = ''row_count'', metric_type = APPROX_DISTINCTNESS, metric_values = []\<rparr>,
          \<lparr>table_name = ''orders'', column_name = ''row_count'', metric_type = NUMERIC_MEAN, metric_values = []\<rparr>,
          \<lparr>table_name = ''orders'', column_name = ''row_count'', metric_type = NUMERIC_MIN, metric_values = []\<rparr>,
          \<lparr>table_name = ''orders'', column_name = ''row_count'', metric_type = NUMERIC_MAX, metric_values = []\<rparr>,
          \<lparr>table_name = ''orders'', column_name = ''row_count'', metric_type = NUMERIC_STD, metric_values = []\<rparr>]
   \<and> lower ''row_count'' \<in> set SPECIAL_KEYS
   \<and> sql \<lparr>table_name = ''orders'', column_name = ''row_count'', metric_type = NUMERIC_MAX, metric_values = []\<rparr>
       = Inr ''MAX(row_count) AS row_count__numeric_max''"
  by code_simp

section \<open>interpret_results\<close>

text \<open>
  C1: the claim is that a cell that fails numeric coercion never makes
  \<^verbatim>\<open>interpret_results\<close> raise and is recorded as a point without a value. The handler
  around \<^verbatim>\<open>float(row[alias])\<close> catches TypeError only: a cell that is \<^verbatim>\<open>None\<close> is
  recorded as such a point, but a cell that holds non-numeric text raises ValueError,
  which ends the call.
\<close>

theorem interpret_results_text_cell_raises:
  "cell_value (PyStr ''abc'') = Inl ValueError
   \<and> interpret_results
       (create_metrics ''orders'' [\<lparr>name = ''status'', data_type = STRING\<rparr>])
       [(''rows'',
         [[(''WINDOW_START'', PyStr ''2023-01-01T00:00:00''),
           (''WINDOW_END'', PyStr ''2023-01-01T01:00:00''),
           (''ROW_COUNT'', PyInt 10),
           (''status__completeness'', PyStr ''abc'')]])]
     = Inl ValueError
   \<and> cell_value PyNone = Inr PyNone
   \<and> map_sum id (\<lambda>r. metric_values (fst r ! 0))
       (interpret_results
         (create_metrics ''orders'' [\<lparr>name = ''status'', data_type = STRING\<rparr>])
         [(''rows'',
           [[(''WINDOW_START'', PyStr ''2023-01-01T00:00:00''),
             (''WINDOW_END'', PyStr ''2023-01-01T01:00:00''),
             (''ROW_COUNT'', PyInt 10),
             (''status__completeness'', PyNone)]])])
     = Inr [\<lparr>point_value = PyNone, window_start = PyStr ''2023-01-01T00:00:00'',
             window_end = PyStr ''2023-01-01T01:00:00''\<rparr>]"
  by code_simp

subsection \<open>A call only appends data points\<close>

lemma apply_updates_Nil [simp]: "apply_updates [] ms = ms"
  by (simp add: apply_updates_def)

lemma apply_updates_Cons [simp]:
  "apply_updates (u # us) ms = apply_updates us (append_point ms (fst u) (snd u))"
  by (simp add: apply_updates_def)

lemma apply_updates_append [simp]:
  "apply_updates (us @ vs) ms = apply_updates vs (apply_updates us ms)"
  by (simp add: apply_updates_def)

lemma appends_only_return: "appends_only (\<lambda>ms. Inr ms)"
  unfolding appends_only_def by (rule exI [of _ "Inr []"]) simp

lemma appends_only_raise: "appends_only (\<lambda>ms. Inl e)"
  unfolding appends_only_def by (rule exI [of _ "Inl e"]) simp

lemma appends_only_append: "appends_only (\<lambda>ms. Inr (append_point ms r p))"
  unfolding appends_only_def by (rule exI [of _ "Inr [(r, p)]"]) simp

lemma appends_only_bind:
  assumes "appends_only f" and "appends_only g"
  shows "appends_only (\<lambda>ms. case f ms of Inl e \<Rightarrow> Inl e | Inr ms' \<Rightarrow> g ms')"
proof -
  from assms(1) obtain r1 where f: "\<And>ms. f ms = (case r1 of Inl e \<Rightarrow> Inl e | Inr us \<Rightarrow> Inr (apply_updates us ms))"
    unfolding appends_only_def by blast
  from assms(2) obtain r2 where g: "\<And>ms. g ms = (case r2 of Inl e \<Rightarrow> Inl e | Inr us \<Rightarrow> Inr (apply_updates us ms))"
    unfolding appends_only_def by blast
  show ?thesis
    unfolding appends_only_def
    by (rule exI [of _ "case r1 of Inl e \<Rightarrow> Inl e
                        | Inr us \<Rightarrow> (case r2 of Inl e \<Rightarrow> Inl e | Inr vs \<Rightarrow> Inr (us @ vs))"])
       (simp add: f g split: sum.splits)
qed

lemma appends_only_interpret_cell: "appends_only (interpret_cell mm r ws we a)"
proof -
  have "interpret_cell mm r ws we a
          = (if \<not> contains_dunder a then (\<lambda>ms. Inr ms)
             else
               (case parse_alias a of
                  Inl e \<Rightarrow> (\<lambda>ms. Inl e)
                | Inr (cn, mn) \<Rightarrow>
                    (case dict_get mm cn of
                       Inl e \<Rightarrow> (\<lambda>ms. Inl e)
                     | Inr inner \<Rightarrow>
                         (case dict_get inner mn of
                            Inl e \<Rightarrow> (\<lambda>ms. Inl e)
                          | Inr metric \<Rightarrow>
                              (case dict_get r a of
                                 Inl e \<Rightarrow> (\<lambda>ms. Inl e)
                               | Inr cell \<Rightarrow>
                                   (case cell_value cell of
                                      Inl e \<Rightarrow> (\<lambda>ms. Inl e)
                                    | Inr v \<Rightarrow>
                                        (\<lambda>ms. Inr (append_point ms metric
                                           \<lparr>point_value = v, window_start = ws,
                                              window_end = we\<rparr>))))))))"
    by (rule ext) (simp add: interpret_cell_def split: sum.splits prod.splits)
  then show ?thesis
    by (simp add: appends_only_return appends_only_raise appends_only_append
          split: sum.splits prod.splits)
qed

lemma appends_only_interpret_keys: "appends_only (interpret_keys mm r ws we ks)"
proof (induction ks)
  case Nil
  have "interpret_keys mm r ws we [] = (\<lambda>ms. Inr ms)" by (rule ext) simp
  then show ?case by (simp add: appends_only_return)
next
  case (Cons a ks)
  have "interpret_keys mm r ws we (a # ks)
          = (\<lambda>ms. case interpret_cell mm r ws we a ms of
                     Inl e \<Rightarrow> Inl e | Inr ms' \<Rightarrow> interpret_keys mm r ws we ks ms')"
    by (rule ext) simp
  then show ?case
    using appends_only_bind [OF appends_only_interpret_cell Cons] by simp
qed

lemma appends_only_interpret_rows: "appends_only (interpret_rows mm rs)"
proof (induction rs)
  case Nil
  have "interpret_rows mm [] = (\<lambda>ms. Inr ms)" by (rule ext) simp
  then show ?case by (simp add: appends_only_return)
next
  case (Cons r rs)
  have "interpret_rows mm (r # rs)
          = (case dict_get r ''WINDOW_START'' of
               Inl e \<Rightarrow> (\<lambda>ms. Inl e)
             | Inr ws \<Rightarrow>
                 (case dict_get r ''WINDOW_END'' of
                    Inl e \<Rightarrow> (\<lambda>ms. Inl e)
                  | Inr we \<Rightarrow>
                      (case dict_get r ''ROW_COUNT'' of
                         Inl e \<Rightarrow> (\<lambda>ms. Inl e)
                       | Inr row_count \<Rightarrow>
                           (\<lambda>ms. case interpret_keys mm r ws we (map fst r) ms of
                                    Inl e \<Rightarrow> Inl e
                                  | Inr ms' \<Rightarrow> interpret_rows mm rs ms'))))"
    by (rule ext) (simp split: sum.splits)
  then show ?case
    using appends_only_bind [OF appends_only_interpret_keys Cons]
    by (simp add: appends_only_raise split: sum.splits)
qed


lemma append_point_length [simp]: "length (append_point ms r p) = length ms"
  by (simp add: append_point_def)

lemma append_point_keys [simp]:
  "map (\<lambda>m. (column_name m, metric_type m)) (append_point ms r p)
     = map (\<lambda>m. (column_name m, metric_type m)) ms"
proof (rule nth_equalityI)
  show "length (map (\<lambda>m. (column_name m, metric_type m)) (append_point ms r p))
          = length (map (\<lambda>m. (column_name m, metric_type m)) ms)"
    by simp
next
  fix i
  assume "i < length (map (\<lambda>m. (column_name m, metric_type m)) (append_point ms r p))"
  then have "i < length ms" by simp
  then show "map (\<lambda>m. (column_name m, metric_type m)) (append_point ms r p) ! i
               = map (\<lambda>m. (column_name m, metric_type m)) ms ! i"
    by (cases "r = i") (simp_all add: append_point_def)
qed

lemma append_point_nth:
  "i < length ms \<Longrightarrow>
   append_point ms r p ! i
     = (if r = i then (ms ! i)\<lparr>metric_values := metric_values (ms ! i) @ [p]\<rparr> else ms ! i)"
  by (cases "r = i") (simp_all add: append_point_def)

lemma apply_updates_length [simp]: "length (apply_updates us ms) = length ms"
  by (induction us arbitrary: ms) simp_all

lemma apply_updates_keys [simp]:
  "map (\<lambda>m. (column_name m, metric_type m)) (apply_updates us ms)
     = map (\<lambda>m. (column_name m, metric_type m)) ms"
  by (induction us arbitrary: ms) simp_all

lemma apply_updates_nth:
  "i < length ms \<Longrightarrow>
   apply_updates us ms ! i
     = (ms ! i)\<lparr>metric_values := metric_values (ms ! i) @ map snd (filter (\<lambda>u. fst u = i) us)\<rparr>"
  by (induction us arbitrary: ms) (simp_all add: append_point_nth)

lemma metric_map_from_cong:
  "map (\<lambda>m. (column_name m, metric_type m)) ms = map (\<lambda>m. (column_name m, metric_type m)) ms'
   \<Longrightarrow> metric_map_from i ms mm = metric_map_from i ms' mm"
proof (induction ms arbitrary: ms' i mm)
  case Nil
  then show ?case by simp
next
  case (Cons m ms)
  then obtain m' ms'' where ms': "ms' = m' # ms''" by (cases ms') auto
  with Cons.prems have "column_name m = column_name m'" "metric_type m = metric_type m'"
    and "map (\<lambda>m. (column_name m, metric_type m)) ms
           = map (\<lambda>m. (column_name m, metric_type m)) ms''"
    by simp_all
  then show ?case
    using Cons.IH [of ms''] by (simp add: ms' Let_def)
qed

lemma metric_map_apply_updates [simp]: "metric_map (apply_updates us ms) = metric_map ms"
  unfolding metric_map_def by (rule metric_map_from_cong) simp

lemma interpret_results_again:
  assumes "interpret_results ms results = Inr (ms1, refs)"
  shows "\<exists>us. ms1 = apply_updates us ms
             \<and> interpret_results ms1 results = Inr (apply_updates us ms1, refs)"
proof -
  from assms obtain rs where rs: "dict_get results ''rows'' = Inr rs"
    and run: "interpret_rows (metric_map ms) rs ms = Inr ms1"
    and flat: "flatten_columns (metric_map ms) (map fst (metric_map ms)) = Inr refs"
    by (auto simp: interpret_results_def Let_def split: sum.splits)
  from appends_only_interpret_rows [of "metric_map ms" rs]
  obtain res where res: "\<And>s. interpret_rows (metric_map ms) rs s
      = (case res of Inl e \<Rightarrow> Inl e | Inr us \<Rightarrow> Inr (apply_updates us s))"
    unfolding appends_only_def by blast
  from run res [of ms] obtain us where us: "res = Inr us" and ms1: "ms1 = apply_updates us ms"
    by (cases res) auto
  have "interpret_rows (metric_map ms) rs ms1 = Inr (apply_updates us ms1)"
    using res [of ms1] us by simp
  then have "interpret_results ms1 results = Inr (apply_updates us ms1, refs)"
    using rs flat by (simp add: interpret_results_def ms1)
  with ms1 show ?thesis by blast
qed

lemma create_metrics_no_values:
  "m \<in> set (create_metrics tbl cols) \<Longrightarrow> metric_values m = []"
  by (auto simp: create_metrics_def)

text \<open>
  C8: \<^verbatim>\<open>interpret_results\<close> is not idempotent. After \<^verbatim>\<open>build_query\<close>, when a call on some
  results returns, a second call on the same results and the same compiler returns too,
  with the same list of metrics, and appends every data point a second time: the values
  of each Metric are then its values after the first call, twice over.
\<close>

theorem interpret_results_twice:
  assumes "build_query self0 monitor cols = Inr (self, q)"
    and "interpret_results self results = Inr (self1, metrics1)"
  shows "\<exists>self2. interpret_results self1 results = Inr (self2, metrics1)
          \<and> length self2 = length self1
          \<and> (\<forall>i < length self1.
                metric_values (self2 ! i) = metric_values (self1 ! i) @ metric_values (self1 ! i)
              \<and> length (metric_values (self2 ! i)) = 2 * length (metric_values (self1 ! i)))"
proof -
  from interpret_results_again [OF assms(2)] obtain us
    where s1: "self1 = apply_updates us self"
      and again: "interpret_results self1 results = Inr (apply_updates us self1, metrics1)"
    by blast
  have empty: "metric_values (self ! i) = []" if "i < length self" for i
    using that build_query_metrics [OF assms(1)] create_metrics_no_values nth_mem by blast
  have "metric_values (apply_updates us self1 ! i)
          = metric_values (self1 ! i) @ metric_values (self1 ! i)" if "i < length self1" for i
    using that empty [of i] by (simp add: s1 apply_updates_nth)
  then show ?thesis using again by auto
qed

theorem interpret_results_twice_witness:
  "\<exists>q self1 metrics1 self2.
      build_query []
        \<lparr>table = ''orders'', timestamp_field = ''created_at'', monitor_columns = Some [],
           monitor_metrics = Some [], monitor_where = ''''\<rparr>
        [\<lparr>name = ''status'', data_type = STRING\<rparr>]
        = Inr (create_metrics ''orders'' [\<lparr>name = ''status'', data_type = STRING\<rparr>], q)
    \<and> interpret_results (create_metrics ''orders'' [\<lparr>name = ''status'', data_type = STRING\<rparr>])
        [(''rows'',
          [[(''WINDOW_START'', PyStr ''2023-01-01T00:00:00''),
            (''WINDOW_END'', PyStr ''2023-01-01T01:00:00''),
            (''ROW_COUNT'', PyInt 10),
            (''status__completeness'', PyStr ''1.0'')]])]
        = Inr (self1, metrics1)
    \<and> interpret_results self1
        [(''rows'',
          [[(''WINDOW_START'', PyStr ''2023-01-01T00:00:00''),
            (''WINDOW_END'', PyStr ''2023-01-01T01:00:00''),
            (''ROW_COUNT'', PyInt 10),
            (''status__completeness'', PyStr ''1.0'')]])]
        = Inr (self2, metrics1)
    \<and> metric_values (self1 ! 0)
        = [\<lparr>point_value = PyFloat (Finite 1), window_start = PyStr ''2023-01-01T00:00:00'',
             window_end = PyStr ''2023-01-01T01:00:00''\<rparr>]
    \<and> metric_values (self2 ! 0)
        = [\<lparr>point_value = PyFloat (Finite 1), window_start = PyStr ''2023-01-01T00:00:00'',
             window_end = PyStr ''2023-01-01T01:00:00''\<rparr>,
           \<lparr>point_value = PyFloat (Finite 1), window_start = PyStr ''2023-01-01T00:00:00'',
             window_end = PyStr ''2023-01-01T01:00:00''\<rparr>]"
proof -
  let ?mon = "\<lparr>table = ''orders'', timestamp_field = ''created_at'', monitor_columns = Some [],
                 monitor_metrics = Some [], monitor_where = ''''\<rparr>"
  let ?cols = "[\<lparr>name = ''status'', data_type = STRING\<rparr>]"
  let ?res = "[(''rows'',
          [[(''WINDOW_START'', PyStr ''2023-01-01T00:00:00''),
            (''WINDOW_END'', PyStr ''2023-01-01T01:00:00''),
            (''ROW_COUNT'', PyInt 10),
            (''status__completeness'', PyStr ''1.0'')]])]"
  let ?p = "\<lparr>point_value = PyFloat (Finite 1), window_start = PyStr ''2023-01-01T00:00:00'',
             window_end = PyStr ''2023-01-01T01:00:00''\<rparr>"
  from build_query_total [of ?mon ?cols "[]"] obtain q
    where b: "build_query [] ?mon ?cols = Inr (create_metrics ''orders'' ?cols, q)"
    by auto
  have "case interpret_results (create_metrics ''orders'' ?cols) ?res of
          Inl e \<Rightarrow> False
        | Inr r \<Rightarrow> length (fst r) = 12 \<and> metric_values (fst r ! 0) = [?p]"
    by code_simp
  then obtain self1 metrics1
    where r: "interpret_results (create_metrics ''orders'' ?cols) ?res = Inr (self1, metrics1)"
      and n: "length self1 = 12" and v: "metric_values (self1 ! 0) = [?p]"
    by (auto split: sum.splits)
  from interpret_results_twice [OF b r] obtain self2
    where "interpret_results self1 ?res = Inr (self2, metrics1)"
      and "metric_values (self2 ! 0) = metric_values (self1 ! 0) @ metric_values (self1 ! 0)"
    using n by auto
  with b r v show ?thesis by auto
qed

subsection \<open>The map of a fresh build and its flattening\<close>











lemma create_metrics_Nil [simp]: "create_metrics tbl [] = []"
  by (simp add: create_metrics_def)









end
